theory Spec2Isabelle
  imports Complex_Main "HOL-Library.AList"
begin

section \<open>Values of the configuration file\<close>

text \<open>
  The bot keeps its relay table in \<^verbatim>\<open>config.json\<close>. Python reads the file with
  \<^verbatim>\<open>json.loads\<close>, which may return any JSON value, and the code then works on that
  value with dynamically typed operations. The model therefore keeps the whole JSON value
  space and gives every operation the source applies to it a result for every shape of
  value: the operation's result, or the exception Python raises.

  A Python \<^verbatim>\<open>dict\<close> keeps its keys in insertion order, so an object is an association
  list; \<^verbatim>\<open>json.loads\<close> only produces dicts with string keys. A Python \<^verbatim>\<open>float\<close> is kept
  by its exact value.
\<close>

datatype pyfloat = Finite rat | PosInf | NegInf | NaN

datatype json =
    JNull
  | JBool bool
  | JInt int
  | JFloat pyfloat
  | JStr string
  | JArr "json list"
  | JObj "(string \<times> json) list"

datatype py_error = AttributeError | TypeError | KeyError | ValueError | OverflowError

subsection \<open>The Python operations the source applies to loaded values\<close>

text \<open>\<^verbatim>\<open>config.get(k, dflt)\<close>: only a dict has \<^verbatim>\<open>get\<close>.\<close>

fun dict_get :: "json \<Rightarrow> string \<Rightarrow> json \<Rightarrow> py_error + json" where
  "dict_get (JObj d) k dflt = Inr (case map_of d k of None \<Rightarrow> dflt | Some v \<Rightarrow> v)"
| "dict_get _ k dflt = Inl AttributeError"

text \<open>\<^verbatim>\<open>t in s\<close> for two strings is the substring test.\<close>

fun substring_of :: "string \<Rightarrow> string \<Rightarrow> bool" where
  "substring_of t [] = (t = [])"
| "substring_of t (c # cs) = (take (length t) (c # cs) = t \<or> substring_of t cs)"

text \<open>
  \<^verbatim>\<open>k in x\<close> for a string \<open>k\<close>: key membership in a dict, element membership in a
  list (a string equals only a string), substring in a string, \<^verbatim>\<open>TypeError\<close> for
  the values that are not iterable.
\<close>

fun contains_str :: "json \<Rightarrow> string \<Rightarrow> py_error + bool" where
  "contains_str (JObj d) k = Inr (map_of d k \<noteq> None)"
| "contains_str (JArr xs) k = Inr (JStr k \<in> set xs)"
| "contains_str (JStr s) k = Inr (substring_of k s)"
| "contains_str _ k = Inl TypeError"

text \<open>\<^verbatim>\<open>x[k]\<close>, \<^verbatim>\<open>del x[k]\<close> and \<^verbatim>\<open>x[k] = v\<close> for a string \<open>k\<close>.\<close>

fun getitem_str :: "json \<Rightarrow> string \<Rightarrow> py_error + json" where
  "getitem_str (JObj d) k = (case map_of d k of None \<Rightarrow> Inl KeyError | Some v \<Rightarrow> Inr v)"
| "getitem_str _ k = Inl TypeError"

fun delitem_str :: "json \<Rightarrow> string \<Rightarrow> py_error + json" where
  "delitem_str (JObj d) k =
     (if map_of d k = None then Inl KeyError else Inr (JObj (AList.delete k d)))"
| "delitem_str _ k = Inl TypeError"

fun setitem_str :: "json \<Rightarrow> string \<Rightarrow> json \<Rightarrow> py_error + json" where
  "setitem_str (JObj d) k v = Inr (JObj (AList.update k v d))"
| "setitem_str _ k v = Inl TypeError"

text \<open>
  \<^verbatim>\<open>i == x\<close> for an integer \<open>i\<close>: Python compares numbers by value across
  \<^verbatim>\<open>int\<close>, \<^verbatim>\<open>bool\<close> and \<^verbatim>\<open>float\<close>; an integer equals nothing else.
\<close>

fun eq_int :: "int \<Rightarrow> json \<Rightarrow> bool" where
  "eq_int i (JInt j) = (i = j)"
| "eq_int i (JBool b) = (i = (if b then 1 else 0))"
| "eq_int i (JFloat (Finite r)) = (of_int i = r)"
| "eq_int i _ = False"

text \<open>
  \<^verbatim>\<open>i in x\<close> for an integer \<open>i\<close>: element membership in a list; in a dict the
  keys are strings, so the answer is no; a string on the right raises, as do the values
  that are not iterable.
\<close>

fun contains_int :: "json \<Rightarrow> int \<Rightarrow> py_error + bool" where
  "contains_int (JArr xs) i = Inr (list_ex (eq_int i) xs)"
| "contains_int (JObj d) i = Inr False"
| "contains_int _ i = Inl TypeError"

text \<open>\<^verbatim>\<open>x.remove(i)\<close> drops the first element equal to \<open>i\<close>.\<close>

fun remove_first :: "int \<Rightarrow> json list \<Rightarrow> json list" where
  "remove_first i [] = []"
| "remove_first i (x # xs) = (if eq_int i x then xs else x # remove_first i xs)"

fun list_remove :: "json \<Rightarrow> int \<Rightarrow> py_error + json" where
  "list_remove (JArr xs) i =
     (if list_ex (eq_int i) xs then Inr (JArr (remove_first i xs)) else Inl ValueError)"
| "list_remove _ i = Inl AttributeError"

text \<open>\<^verbatim>\<open>not x\<close>: the values Python counts as false.\<close>

fun py_not :: "json \<Rightarrow> bool" where
  "py_not JNull = True"
| "py_not (JBool b) = (\<not> b)"
| "py_not (JInt i) = (i = 0)"
| "py_not (JFloat f) = (f = Finite 0)"
| "py_not (JStr s) = (s = [])"
| "py_not (JArr xs) = (xs = [])"
| "py_not (JObj d) = (d = [])"

text \<open>
  \<^verbatim>\<open>relay.setdefault(k, []).append(i)\<close>: the list under \<open>k\<close>, created empty at the
  end of the dict when \<open>k\<close> is new, gets \<open>i\<close> at its end, in place. Only a dict has
  \<^verbatim>\<open>setdefault\<close> and only a list has \<^verbatim>\<open>append\<close>.
\<close>

fun setdefault_append :: "json \<Rightarrow> string \<Rightarrow> int \<Rightarrow> py_error + json" where
  "setdefault_append (JObj d) k i =
     (case map_of d k of
        None \<Rightarrow> Inr (JObj (AList.update k (JArr [JInt i]) d))
      | Some (JArr xs) \<Rightarrow> Inr (JObj (AList.update k (JArr (xs @ [JInt i])) d))
      | Some _ \<Rightarrow> Inl AttributeError)"
| "setdefault_append _ k i = Inl AttributeError"

text \<open>\<^verbatim>\<open>x[k].remove(i)\<close>, which changes the list inside \<open>x\<close>.\<close>

definition item_remove :: "json \<Rightarrow> string \<Rightarrow> int \<Rightarrow> py_error + json" where
  "item_remove x k i =
     (case getitem_str x k of
        Inl e \<Rightarrow> Inl e
      | Inr lst \<Rightarrow>
          (case list_remove lst i of
             Inl e \<Rightarrow> Inl e
           | Inr lst' \<Rightarrow> setitem_str x k lst'))"

section \<open>The file\<close>

text \<open>
  The code sees \<^verbatim>\<open>config.json\<close> only through \<^verbatim>\<open>open\<close>, \<^verbatim>\<open>f.read().strip()\<close>,
  \<^verbatim>\<open>json.loads\<close> and \<^verbatim>\<open>json.dump\<close>. The file is modelled by what these observe:
  \<^item> \<open>Missing\<close>: \<^verbatim>\<open>open\<close> raises \<^verbatim>\<open>FileNotFoundError\<close>;
  \<^item> \<open>NonJson t\<close>: the file holds the text \<open>t\<close>, which is not a JSON document: it is
    blank, or \<^verbatim>\<open>json.loads\<close> raises \<^verbatim>\<open>JSONDecodeError\<close> on it;
  \<^item> \<open>JsonDoc v\<close>: the file holds a JSON document that \<^verbatim>\<open>json.loads\<close> decodes to \<open>v\<close>.
  \<^verbatim>\<open>json.dump(v, f, indent=2)\<close> leaves a document that decodes to \<open>v\<close> again. The state
  also records every value dumped, oldest first, so that a call that writes nothing can
  be told from one that writes the same content.
\<close>

datatype disk = Missing | NonJson string | JsonDoc json

record disk_state =
  config_file :: disk
  dumped :: "json list"

definition json_dump :: "json \<Rightarrow> disk_state \<Rightarrow> disk_state" where
  "json_dump v s = s\<lparr>config_file := JsonDoc v, dumped := dumped s @ [v]\<rparr>"

text \<open>\<^verbatim>\<open>str.strip()\<close> removes the white space of Python's \<^verbatim>\<open>str.isspace\<close> at both ends.\<close>

definition isspace :: "char \<Rightarrow> bool" where
  "isspace c = (of_char c \<in> {9, 10, 11, 12, 13, 28, 29, 30, 31, 32, 133, 160 :: nat})"

definition strip :: "string \<Rightarrow> string" where
  "strip t = rev (dropWhile isspace (rev (dropWhile isspace t)))"

section \<open>The configuration store\<close>

definition defaultConfig :: json where
  "defaultConfig = JObj [(''relayChannels'', JObj [])]"

definition loadConfig :: "disk_state \<Rightarrow> json \<times> disk_state" where
  "loadConfig s =
     (case config_file s of
        Missing \<Rightarrow> (defaultConfig, json_dump defaultConfig s)
      | NonJson t \<Rightarrow>
          (if strip t = [] then (defaultConfig, s)
           else (defaultConfig, json_dump defaultConfig s))
      | JsonDoc v \<Rightarrow> (v, s))"

definition getRelayChannels :: "disk_state \<Rightarrow> (py_error + json) \<times> disk_state" where
  "getRelayChannels s =
     (let (config, s1) = loadConfig s
      in (dict_get config ''relayChannels'' (JObj []), s1))"

definition updateRelayChannels ::
    "string \<Rightarrow> int \<Rightarrow> disk_state \<Rightarrow> (py_error + unit) \<times> disk_state" where
  "updateRelayChannels sourceId destId s =
     (let (config, s1) = loadConfig s
      in case dict_get config ''relayChannels'' (JObj []) of
           Inl e \<Rightarrow> (Inl e, s1)
         | Inr relay \<Rightarrow>
             (case setdefault_append relay sourceId destId of
                Inl e \<Rightarrow> (Inl e, s1)
              | Inr relay' \<Rightarrow>
                  (case setitem_str config ''relayChannels'' relay' of
                     Inl e \<Rightarrow> (Inl e, s1)
                   | Inr config' \<Rightarrow> (Inr (), json_dump config' s1))))"

text \<open>The last three lines of \<^verbatim>\<open>removeRelayEntry\<close>: store the table, dump, return \<^verbatim>\<open>True\<close>.\<close>

definition persist :: "json \<Rightarrow> json \<Rightarrow> disk_state \<Rightarrow> (py_error + bool) \<times> disk_state" where
  "persist config relayChannels s1 =
     (case setitem_str config ''relayChannels'' relayChannels of
        Inl e \<Rightarrow> (Inl e, s1)
      | Inr config' \<Rightarrow> (Inr True, json_dump config' s1))"

definition removeRelayEntry ::
    "string \<Rightarrow> int option \<Rightarrow> disk_state \<Rightarrow> (py_error + bool) \<times> disk_state" where
  "removeRelayEntry sourceId destId s =
     (let (config, s1) = loadConfig s
      in case dict_get config ''relayChannels'' (JObj []) of
           Inl e \<Rightarrow> (Inl e, s1)
         | Inr relayChannels \<Rightarrow>
             (case contains_str relayChannels sourceId of
                Inl e \<Rightarrow> (Inl e, s1)
              | Inr False \<Rightarrow> (Inr False, s1)
              | Inr True \<Rightarrow>
                  (case destId of
                     None \<Rightarrow>
                       (case delitem_str relayChannels sourceId of
                          Inl e \<Rightarrow> (Inl e, s1)
                        | Inr rc \<Rightarrow> persist config rc s1)
                   | Some d \<Rightarrow>
                       (case getitem_str relayChannels sourceId of
                          Inl e \<Rightarrow> (Inl e, s1)
                        | Inr lst \<Rightarrow>
                            (case contains_int lst d of
                               Inl e \<Rightarrow> (Inl e, s1)
                             | Inr False \<Rightarrow> (Inr False, s1)
                             | Inr True \<Rightarrow>
                                 (case item_remove relayChannels sourceId d of
                                    Inl e \<Rightarrow> (Inl e, s1)
                                  | Inr rc \<Rightarrow>
                                      (case getitem_str rc sourceId of
                                         Inl e \<Rightarrow> (Inl e, s1)
                                       | Inr lst' \<Rightarrow>
                                           (if py_not lst' then
                                              (case delitem_str rc sourceId of
                                                 Inl e \<Rightarrow> (Inl e, s1)
                                               | Inr rc' \<Rightarrow> persist config rc' s1)
                                            else persist config rc s1))))))))"


text \<open>
  A well-formed \<^verbatim>\<open>RelayConfig\<close>, as the data model describes it: an object whose
  \<^verbatim>\<open>relayChannels\<close> field is present and is an object with unique keys, each mapping to
  a list of integer channel ids that is not empty.
\<close>

fun is_JInt :: "json \<Rightarrow> bool" where
  "is_JInt (JInt i) = True"
| "is_JInt _ = False"

fun dest_list :: "json \<Rightarrow> bool" where
  "dest_list (JArr xs) = (xs \<noteq> [] \<and> list_all is_JInt xs)"
| "dest_list _ = False"

fun well_formed :: "json \<Rightarrow> bool" where
  "well_formed (JObj c) =
     (case map_of c ''relayChannels'' of
        Some (JObj r) \<Rightarrow> distinct (map fst r) \<and> list_all (\<lambda>kv. dest_list (snd kv)) r
      | _ \<Rightarrow> False)"
| "well_formed _ = False"

definition file_well_formed :: "disk_state \<Rightarrow> bool" where
  "file_well_formed s = (case config_file s of JsonDoc cfg \<Rightarrow> well_formed cfg | _ \<Rightarrow> False)"

text \<open>Sequences of store operations; what an operation returns or raises is dropped.\<close>

datatype store_op = AddMapping string int | RemoveMapping string "int option"

fun apply_op :: "store_op \<Rightarrow> disk_state \<Rightarrow> disk_state" where
  "apply_op (AddMapping sourceId destId) s = snd (updateRelayChannels sourceId destId s)"
| "apply_op (RemoveMapping sourceId destId) s = snd (removeRelayEntry sourceId destId s)"

definition run_ops :: "store_op list \<Rightarrow> disk_state \<Rightarrow> disk_state" where
  "run_ops ops s = fold apply_op ops s"

text \<open>
  What a configuration holds under a top-level field and under a source of its table,
  and what the file shows of both.
\<close>

definition config_field :: "json \<Rightarrow> string \<Rightarrow> json option" where
  "config_field cfg f = (case cfg of JObj c \<Rightarrow> map_of c f | _ \<Rightarrow> None)"

definition config_dests :: "json \<Rightarrow> string \<Rightarrow> json option" where
  "config_dests cfg k =
     (case config_field cfg ''relayChannels'' of Some (JObj r) \<Rightarrow> map_of r k | _ \<Rightarrow> None)"

definition stored_field :: "disk_state \<Rightarrow> string \<Rightarrow> json option" where
  "stored_field s f = (case config_file s of JsonDoc cfg \<Rightarrow> config_field cfg f | _ \<Rightarrow> None)"

definition stored_dests :: "disk_state \<Rightarrow> string \<Rightarrow> json option" where
  "stored_dests s k = (case config_file s of JsonDoc cfg \<Rightarrow> config_dests cfg k | _ \<Rightarrow> None)"

text \<open>
  The frame of a store operation on source \<open>k\<close>, for a loaded configuration \<open>cfg\<close> and
  the state \<open>s1\<close> that loading left: the operation wrote nothing more, or it dumped one
  configuration that agrees with \<open>cfg\<close> on every top-level field other than
  \<^verbatim>\<open>relayChannels\<close> and on every source other than \<open>k\<close>.
\<close>

definition framed :: "string \<Rightarrow> json \<Rightarrow> disk_state \<Rightarrow> disk_state \<Rightarrow> bool" where
  "framed k cfg s1 s' \<longleftrightarrow>
     s' = s1 \<or>
     (\<exists>cfg'. s' = json_dump cfg' s1 \<and>
        (\<forall>f. f \<noteq> ''relayChannels'' \<longrightarrow> config_field cfg' f = config_field cfg f) \<and>
        (\<forall>k'. k' \<noteq> k \<longrightarrow> config_dests cfg' k' = config_dests cfg k'))"

section \<open>Integers and text\<close>

text \<open>
  A character stands for a code point below 256. \<^verbatim>\<open>str(n)\<close> writes an integer in
  decimal; \<^verbatim>\<open>int(s)\<close> reads one: white space around it, an optional sign, digits, with
  single underscores allowed between digits, anything else is a \<^verbatim>\<open>ValueError\<close>. The
  interpreter's bound on the number of digits of both conversions is left out.
\<close>

definition digit_char :: "nat \<Rightarrow> char" where
  "digit_char n = ''0123456789'' ! (n mod 10)"

fun str_nat :: "nat \<Rightarrow> string" where
  "str_nat n = (if n < 10 then [digit_char n] else str_nat (n div 10) @ [digit_char n])"

definition str_int :: "int \<Rightarrow> string" where
  "str_int i = (if i < 0 then CHR ''-'' # str_nat (nat (- i)) else str_nat (nat i))"

definition is_digit :: "char \<Rightarrow> bool" where
  "is_digit c = (48 \<le> (of_char c :: nat) \<and> (of_char c :: nat) \<le> 57)"

definition digit_val :: "char \<Rightarrow> nat" where
  "digit_val c = of_char c - 48"

fun digits_value :: "nat \<Rightarrow> string \<Rightarrow> nat option" where
  "digits_value acc [] = Some acc"
| "digits_value acc [c] = (if is_digit c then Some (10 * acc + digit_val c) else None)"
| "digits_value acc (c # d # cs) =
     (if is_digit c then digits_value (10 * acc + digit_val c) (d # cs)
      else if c = CHR ''_'' \<and> is_digit d then digits_value (10 * acc + digit_val d) cs
      else None)"

fun nat_of_digits :: "string \<Rightarrow> nat option" where
  "nat_of_digits [] = None"
| "nat_of_digits (c # cs) = (if is_digit c then digits_value (digit_val c) cs else None)"

definition int_str :: "string \<Rightarrow> py_error + int" where
  "int_str s =
     (case strip s of
        [] \<Rightarrow> Inl ValueError
      | c # cs \<Rightarrow>
          (if c = CHR ''-'' then
             (case nat_of_digits cs of None \<Rightarrow> Inl ValueError | Some n \<Rightarrow> Inr (- int n))
           else if c = CHR ''+'' then
             (case nat_of_digits cs of None \<Rightarrow> Inl ValueError | Some n \<Rightarrow> Inr (int n))
           else
             (case nat_of_digits (c # cs) of None \<Rightarrow> Inl ValueError | Some n \<Rightarrow> Inr (int n))))"



text \<open>\<^verbatim>\<open>str.lower()\<close> on code points below 256.\<close>

definition lower_char :: "char \<Rightarrow> char" where
  "lower_char c =
     (let n = (of_char c :: nat)
      in if (65 \<le> n \<and> n \<le> 90) \<or> (192 \<le> n \<and> n \<le> 214) \<or> (216 \<le> n \<and> n \<le> 222)
         then char_of (n + 32) else c)"

definition lower :: "string \<Rightarrow> string" where
  "lower s = map lower_char s"

section \<open>The chat platform\<close>

text \<open>
  The platform client is outside the repository. The model keeps what the handlers read
  from its objects and records what they ask of it: \<^verbatim>\<open>bot.get_channel\<close> is a lookup given
  to the handler, \<^verbatim>\<open>send\<close> and \<^verbatim>\<open>bot.process_commands\<close> are recorded in order, and
  \<^verbatim>\<open>bot.wait_for\<close> returns the first message passing the check among those that arrive
  before the timeout, or times out. The field \<open>is_bot\<close> is the source's \<^verbatim>\<open>author.bot\<close>
  and \<open>channel_id\<close> its \<^verbatim>\<open>channel.id\<close>; the command \<^verbatim>\<open>remove\<close> is \<open>remove_cmd\<close> below.
\<close>

record user =
  user_id :: nat
  is_bot :: bool

record channel =
  channel_id :: int
  mention :: string

record message =
  author :: user
  channel :: channel
  content :: string
  channel_mentions :: "channel list"

record invocation =
  ctx_author :: user
  ctx_channel :: channel

datatype effect = Send channel string | ProcessCommands message

definition wait_for :: "(message \<Rightarrow> bool) \<Rightarrow> message list \<Rightarrow> message option" where
  "wait_for check arriving = find check arriving"

section \<open>The message router\<close>



section \<open>The remove command\<close>

definition check_channel :: "invocation \<Rightarrow> message \<Rightarrow> bool" where
  "check_channel ctx m =
     (user_id (author m) = user_id (ctx_author ctx) \<and>
      channel_id (channel m) = channel_id (ctx_channel ctx))"

text \<open>
  The first mentioned channel, else the channel of the id typed. \<^verbatim>\<open>int\<close> may raise.
\<close>

definition resolve_channel ::
    "(int \<Rightarrow> channel option) \<Rightarrow> message \<Rightarrow> py_error + channel option" where
  "resolve_channel get_channel m =
     (case channel_mentions m of
        ch # _ \<Rightarrow> Inr (Some ch)
      | [] \<Rightarrow>
          (case int_str (strip (content m)) of
             Inl e \<Rightarrow> Inl e
           | Inr i \<Rightarrow> Inr (get_channel i)))"

definition ask_source :: string where
  "ask_source =
     ''Please mention the **source** channel you wish to modify (e.g. #general) or type channel ID:''"

definition ask_dest :: string where
  "ask_dest =
     ''Type `all` to remove the entire source relay, or mention a **destination** channel to remove:''"

definition cancelled :: string where
  "cancelled = ''Timed out or error occurred, command cancelled.''"

definition removed_all :: "channel \<Rightarrow> string" where
  "removed_all sourceChannel =
     ''Removed all relays from source channel '' @ mention sourceChannel @ ''.''"

definition removed_one :: "channel \<Rightarrow> channel \<Rightarrow> string" where
  "removed_one sourceChannel destChannel =
     ''Removed relay from '' @ mention sourceChannel @ '' to '' @ mention destChannel @ ''.''"

text \<open>
  The command, from the first prompt on. Every exception raised inside the \<^verbatim>\<open>try\<close> block
  (a timeout, \<^verbatim>\<open>int\<close> on the source reply, an exception of \<^verbatim>\<open>removeRelayEntry\<close>) ends in
  the cancellation notice; \<^verbatim>\<open>int\<close> on the destination reply has its own handler.
\<close>

definition remove_cmd ::
    "(int \<Rightarrow> channel option) \<Rightarrow> invocation \<Rightarrow> message list \<Rightarrow> message list \<Rightarrow> disk_state
      \<Rightarrow> effect list \<times> disk_state" where
  "remove_cmd get_channel ctx arriving1 arriving2 s =
     (let say = Send (ctx_channel ctx);
          out0 = [say ask_source]
      in case wait_for (check_channel ctx) arriving1 of
           None \<Rightarrow> (out0 @ [say cancelled], s)
         | Some sourceMsg \<Rightarrow>
             (case resolve_channel get_channel sourceMsg of
                Inl e \<Rightarrow> (out0 @ [say cancelled], s)
              | Inr None \<Rightarrow> (out0 @ [say ''Invalid source channel. Command cancelled.''], s)
              | Inr (Some sourceChannel) \<Rightarrow>
                  (let sourceID = str_int (channel_id sourceChannel);
                       out1 = out0 @ [say ask_dest]
                   in case wait_for (check_channel ctx) arriving2 of
                        None \<Rightarrow> (out1 @ [say cancelled], s)
                      | Some destMsg \<Rightarrow>
                          (if lower (content destMsg) = ''all'' then
                             (case removeRelayEntry sourceID None s of
                                (Inl e, s') \<Rightarrow> (out1 @ [say cancelled], s')
                              | (Inr success, s') \<Rightarrow>
                                  (if success then (out1 @ [say (removed_all sourceChannel)], s')
                                   else (out1 @ [say ''No relays found for that source channel.''], s')))
                           else
                             (case resolve_channel get_channel destMsg of
                                Inl e \<Rightarrow>
                                  (if e = ValueError then
                                     (out1 @ [say ''Invalid destination channel ID. Command cancelled.''], s)
                                   else (out1 @ [say cancelled], s))
                              | Inr None \<Rightarrow>
                                  (out1 @ [say ''Invalid destination channel. Command cancelled.''], s)
                              | Inr (Some destChannel) \<Rightarrow>
                                  (case removeRelayEntry sourceID (Some (channel_id destChannel)) s of
                                     (Inl e, s') \<Rightarrow> (out1 @ [say cancelled], s')
                                   | (Inr success, s') \<Rightarrow>
                                       (if success then
                                          (out1 @ [say (removed_one sourceChannel destChannel)], s')
                                        else (out1 @ [say ''That relay was not found.''], s'))))))))"

section \<open>Loading\<close>

lemma loadConfig_doc: "config_file s = JsonDoc v \<Longrightarrow> loadConfig s = (v, s)"
  by (simp add: loadConfig_def)

lemma loadConfig_dump: "loadConfig (json_dump v s) = (v, json_dump v s)"
  by (simp add: loadConfig_def json_dump_def)

lemma getRelayChannels_eq:
  "getRelayChannels s =
     (dict_get (fst (loadConfig s)) ''relayChannels'' (JObj []), snd (loadConfig s))"
  by (simp add: getRelayChannels_def split: prod.split)

lemma getRelayChannels_dump:
  "getRelayChannels (json_dump v s) = (dict_get v ''relayChannels'' (JObj []), json_dump v s)"
  by (simp add: getRelayChannels_eq loadConfig_dump)

lemma dict_get_Inr: "dict_get v k dflt = Inr x \<Longrightarrow> \<exists>c. v = JObj c"
  by (cases v) simp_all

text \<open>When the table read is a dict, the configuration loaded was a dict holding it.\<close>

lemma getRelayChannels_loadD:
  assumes "getRelayChannels s = (Inr (JObj r), s1)"
  obtains c where "loadConfig s = (JObj c, s1)"
    and "dict_get (JObj c) ''relayChannels'' (JObj []) = Inr (JObj r)"
proof -
  obtain cfg where l: "loadConfig s = (cfg, s1)"
    and g: "dict_get cfg ''relayChannels'' (JObj []) = Inr (JObj r)"
    using assms by (cases "loadConfig s") (simp add: getRelayChannels_eq)
  from g obtain c where "cfg = JObj c" by (auto dest: dict_get_Inr)
  with l g that show thesis by blast
qed

lemma strip_not_json: "strip ''{not json'' \<noteq> []"
  by (simp add: strip_def isspace_def)

text \<open>
  C9. Loading a file whose text is \<^verbatim>\<open>{not json\<close>, a text that \<^verbatim>\<open>json.loads\<close> rejects,
  returns the default configuration and leaves the file holding the default
  configuration, written by one dump.
\<close>

theorem C9_load_not_json:
  "loadConfig \<lparr>config_file = NonJson ''{not json'', dumped = ds\<rparr> =
     (JObj [(''relayChannels'', JObj [])],
      \<lparr>config_file = JsonDoc (JObj [(''relayChannels'', JObj [])]),
       dumped = ds @ [JObj [(''relayChannels'', JObj [])]]\<rparr>)"
  by (simp add: loadConfig_def strip_not_json json_dump_def defaultConfig_def)

theorem C9_load_not_json_witness:
  "loadConfig \<lparr>config_file = NonJson ''{not json'', dumped = []\<rparr> =
     (JObj [(''relayChannels'', JObj [])],
      \<lparr>config_file = JsonDoc (JObj [(''relayChannels'', JObj [])]),
       dumped = [JObj [(''relayChannels'', JObj [])]]\<rparr>)"
  using C9_load_not_json [of "[]"] by simp




section \<open>Adding a mapping\<close>

lemma setdefault_append_ok:
  "map_of r k = None \<and> xs = [] \<or> map_of r k = Some (JArr xs) \<Longrightarrow>
   setdefault_append (JObj r) k d = Inr (JObj (AList.update k (JArr (xs @ [JInt d])) r))"
  by auto

lemma updateRelayChannels_load:
  assumes "loadConfig s = (JObj c, s1)"
    and "dict_get (JObj c) ''relayChannels'' (JObj []) = Inr (JObj r)"
    and "map_of r k = None \<and> xs = [] \<or> map_of r k = Some (JArr xs)"
  shows "updateRelayChannels k d s =
           (Inr (), json_dump (JObj (AList.update ''relayChannels''
                      (JObj (AList.update k (JArr (xs @ [JInt d])) r)) c)) s1)"
  using assms(1,2) setdefault_append_ok [OF assms(3), of d]
  by (simp add: updateRelayChannels_def del: dict_get.simps setdefault_append.simps)

text \<open>
  One add, seen through \<^verbatim>\<open>getRelayChannels\<close>: the list under the source, empty when the
  source is new, gets the destination at its end.
\<close>

lemma updateRelayChannels_ok:
  assumes "getRelayChannels s = (Inr (JObj r), s1)"
    and "map_of r k = None \<and> xs = [] \<or> map_of r k = Some (JArr xs)"
  shows "fst (updateRelayChannels k d s) = Inr () \<and>
         getRelayChannels (snd (updateRelayChannels k d s)) =
           (Inr (JObj (AList.update k (JArr (xs @ [JInt d])) r)),
            snd (updateRelayChannels k d s))"
proof -
  from assms(1) obtain c where "loadConfig s = (JObj c, s1)"
    and "dict_get (JObj c) ''relayChannels'' (JObj []) = Inr (JObj r)"
    by (rule getRelayChannels_loadD)
  from updateRelayChannels_load [OF this assms(2), of d] show ?thesis
    by (simp add: getRelayChannels_dump update_conv')
qed

lemma adds_ok:
  assumes "getRelayChannels s = (Inr (JObj r), s1)"
    and "map_of r k = None \<and> xs = [] \<or> map_of r k = Some (JArr xs)"
    and "ds \<noteq> []"
  shows "getRelayChannels (run_ops (map (AddMapping k) ds) s) =
           (Inr (JObj (AList.update k (JArr (xs @ map JInt ds)) r)),
            run_ops (map (AddMapping k) ds) s)"
  using assms
proof (induction ds arbitrary: s s1 r xs)
  case Nil
  then show ?case by simp
next
  case (Cons d ds)
  let ?s' = "snd (updateRelayChannels k d s)"
  let ?r' = "AList.update k (JArr (xs @ [JInt d])) r"
  from updateRelayChannels_ok [OF Cons.prems(1,2), of d]
  have one: "getRelayChannels ?s' = (Inr (JObj ?r'), ?s')" by simp
  show ?case
  proof (cases "ds = []")
    case True
    with one show ?thesis by (simp add: run_ops_def)
  next
    case False
    have "map_of ?r' k = None \<and> xs @ [JInt d] = [] \<or> map_of ?r' k = Some (JArr (xs @ [JInt d]))"
      by (simp add: update_conv')
    from Cons.IH [OF one this False] show ?thesis by (simp add: run_ops_def)
  qed
qed

text \<open>
  C7. From any state whose table has no key \<open>sourceId\<close> (a missing, blank or rejected file
  included), adding \<open>d1\<close> and then \<open>d2\<close> under \<open>sourceId\<close> leaves a table that differs
  from the old one by the entry \<open>sourceId\<close>, whose list is \<open>[d1, d2]\<close>: created by the
  first add, extended at the end by the second, with no check for duplicates
  (\<open>d1 = d2\<close> is allowed).
\<close>

theorem C7_adds_append_in_order:
  assumes "getRelayChannels s = (Inr (JObj r), s1)" and "map_of r sourceId = None"
  shows "getRelayChannels
           (snd (updateRelayChannels sourceId d2 (snd (updateRelayChannels sourceId d1 s)))) =
           (Inr (JObj (AList.update sourceId (JArr [JInt d1, JInt d2]) r)),
            snd (updateRelayChannels sourceId d2 (snd (updateRelayChannels sourceId d1 s)))) \<and>
         getitem_str (JObj (AList.update sourceId (JArr [JInt d1, JInt d2]) r)) sourceId =
           Inr (JArr [JInt d1, JInt d2])"
proof -
  let ?s' = "snd (updateRelayChannels sourceId d1 s)"
  from assms have "map_of r sourceId = None \<and> ([] :: json list) = [] \<or>
      map_of r sourceId = Some (JArr [])"
    by simp
  from updateRelayChannels_ok [OF assms(1) this, of d1]
  have one: "getRelayChannels ?s' = (Inr (JObj (AList.update sourceId (JArr [JInt d1]) r)), ?s')"
    by simp
  have "map_of (AList.update sourceId (JArr [JInt d1]) r) sourceId = None \<and> [JInt d1] = [] \<or>
      map_of (AList.update sourceId (JArr [JInt d1]) r) sourceId = Some (JArr [JInt d1])"
    by (simp add: update_conv')
  from updateRelayChannels_ok [OF one this, of d2] show ?thesis
    by (simp add: update_conv')
qed

theorem C7_adds_append_in_order_witness:
  "fst (getRelayChannels
     (snd (updateRelayChannels ''100'' 300 (snd (updateRelayChannels ''100'' 200
        \<lparr>config_file = JsonDoc (JObj [(''relayChannels'', JObj [(''7'', JArr [JInt 1])])]),
         dumped = []\<rparr>))))) =
     Inr (JObj [(''7'', JArr [JInt 1]), (''100'', JArr [JInt 200, JInt 300])]) \<and>
   getitem_str (JObj [(''7'', JArr [JInt 1]), (''100'', JArr [JInt 200, JInt 300])]) ''100'' =
     Inr (JArr [JInt 200, JInt 300])"
proof -
  let ?s = "\<lparr>config_file = JsonDoc (JObj [(''relayChannels'', JObj [(''7'', JArr [JInt 1])])]),
             dumped = []\<rparr>"
  have g: "getRelayChannels ?s = (Inr (JObj [(''7'', JArr [JInt 1])]), ?s)"
    by (simp add: getRelayChannels_def loadConfig_def)
  have n: "map_of [(''7'', JArr [JInt 1])] ''100'' = None" by simp
  from C7_adds_append_in_order [OF g n, where ?d1.0 = 200 and ?d2.0 = 300] show ?thesis by simp
qed

section \<open>Removing a mapping\<close>

lemma removeRelayEntry_absent_load:
  assumes "loadConfig s = (JObj c, s1)"
    and "dict_get (JObj c) ''relayChannels'' (JObj []) = Inr (JObj r)"
    and "map_of r k = None"
  shows "removeRelayEntry k d s = (Inr False, s1)"
  using assms by (simp add: removeRelayEntry_def del: dict_get.simps)

lemma removeRelayEntry_all_load:
  assumes "loadConfig s = (JObj c, s1)"
    and "dict_get (JObj c) ''relayChannels'' (JObj []) = Inr (JObj r)"
    and "map_of r k \<noteq> None"
  shows "removeRelayEntry k None s =
           (Inr True, json_dump (JObj (AList.update ''relayChannels''
                        (JObj (AList.delete k r)) c)) s1)"
  using assms by (simp add: removeRelayEntry_def persist_def del: dict_get.simps)

lemma removeRelayEntry_missing_dest_load:
  assumes "loadConfig s = (JObj c, s1)"
    and "dict_get (JObj c) ''relayChannels'' (JObj []) = Inr (JObj r)"
    and "map_of r k = Some (JArr xs)" and "\<not> list_ex (eq_int d) xs"
  shows "removeRelayEntry k (Some d) s = (Inr False, s1)"
  using assms by (simp add: removeRelayEntry_def del: dict_get.simps)

lemma removeRelayEntry_dest_load:
  assumes "loadConfig s = (JObj c, s1)"
    and "dict_get (JObj c) ''relayChannels'' (JObj []) = Inr (JObj r)"
    and "map_of r k = Some (JArr xs)" and "list_ex (eq_int d) xs"
  shows "removeRelayEntry k (Some d) s =
           (Inr True, json_dump (JObj (AList.update ''relayChannels''
              (JObj (if remove_first d xs = [] then AList.delete k r
                     else AList.update k (JArr (remove_first d xs)) r)) c)) s1)"
  using assms
  by (simp add: removeRelayEntry_def persist_def item_remove_def update_conv'
        delete_update_same del: dict_get.simps)

text \<open>Removing a whole source that is a key, seen through \<^verbatim>\<open>getRelayChannels\<close>.\<close>

lemma removeRelayEntry_all_ok:
  assumes "getRelayChannels s = (Inr (JObj r), s1)" and "map_of r k \<noteq> None"
  shows "fst (removeRelayEntry k None s) = Inr True \<and>
         getRelayChannels (snd (removeRelayEntry k None s)) =
           (Inr (JObj (AList.delete k r)), snd (removeRelayEntry k None s))"
proof -
  from assms(1) obtain c where l: "loadConfig s = (JObj c, s1)"
    and g: "dict_get (JObj c) ''relayChannels'' (JObj []) = Inr (JObj r)"
    by (rule getRelayChannels_loadD)
  from removeRelayEntry_all_load [OF l g assms(2)] show ?thesis
    by (simp add: getRelayChannels_dump update_conv')
qed

text \<open>
  C4. Let \<^verbatim>\<open>getRelayChannels\<close> read the table \<open>r\<close> and leave the state \<open>s1\<close>. When
  \<open>sourceId\<close> is not a key of \<open>r\<close>, or it is a key with a list in which no element equals
  the destination given, \<^verbatim>\<open>removeRelayEntry\<close> returns \<^verbatim>\<open>False\<close> and leaves the state that
  loading alone leaves; when the file holds a JSON document that is the state it
  started from: the same content and no dump.
\<close>

theorem C4_remove_absent_is_noop:
  assumes "getRelayChannels s = (Inr (JObj r), s1)"
    and "map_of r sourceId = None \<or>
         (\<exists>d xs. destId = Some d \<and> map_of r sourceId = Some (JArr xs) \<and>
                  \<not> list_ex (eq_int d) xs)"
  shows "removeRelayEntry sourceId destId s = (Inr False, s1) \<and>
         s1 = snd (loadConfig s) \<and>
         (config_file s = JsonDoc cfg \<longrightarrow> s1 = s)"
proof -
  from assms(1) obtain c where l: "loadConfig s = (JObj c, s1)"
    and g: "dict_get (JObj c) ''relayChannels'' (JObj []) = Inr (JObj r)"
    by (rule getRelayChannels_loadD)
  from assms(2) have "removeRelayEntry sourceId destId s = (Inr False, s1)"
    by (auto simp add: removeRelayEntry_absent_load [OF l g]
          removeRelayEntry_missing_dest_load [OF l g])
  moreover from l have "s1 = snd (loadConfig s)" by simp
  moreover from l have "config_file s = JsonDoc cfg \<longrightarrow> s1 = s"
    by (auto simp add: loadConfig_doc)
  ultimately show ?thesis by blast
qed

theorem C4_remove_absent_is_noop_witness:
  "removeRelayEntry ''999'' None
     \<lparr>config_file = JsonDoc (JObj [(''relayChannels'', JObj [(''100'', JArr [JInt 200])])]),
      dumped = []\<rparr> =
     (Inr False,
      \<lparr>config_file = JsonDoc (JObj [(''relayChannels'', JObj [(''100'', JArr [JInt 200])])]),
       dumped = []\<rparr>) \<and>
   removeRelayEntry ''100'' (Some 300)
     \<lparr>config_file = JsonDoc (JObj [(''relayChannels'', JObj [(''100'', JArr [JInt 200])])]),
      dumped = []\<rparr> =
     (Inr False,
      \<lparr>config_file = JsonDoc (JObj [(''relayChannels'', JObj [(''100'', JArr [JInt 200])])]),
       dumped = []\<rparr>)"
proof -
  let ?s = "\<lparr>config_file = JsonDoc (JObj [(''relayChannels'', JObj [(''100'', JArr [JInt 200])])]),
             dumped = []\<rparr>"
  have g: "getRelayChannels ?s = (Inr (JObj [(''100'', JArr [JInt 200])]), ?s)"
    by (simp add: getRelayChannels_def loadConfig_def)
  have a: "map_of [(''100'', JArr [JInt 200])] ''999'' = None \<or>
         (\<exists>d xs. (None :: int option) = Some d \<and>
            map_of [(''100'', JArr [JInt 200])] ''999'' = Some (JArr xs) \<and>
            \<not> list_ex (eq_int d) xs)"
    by simp
  have b: "map_of [(''100'', JArr [JInt 200])] ''100'' = None \<or>
         (\<exists>d xs. Some (300 :: int) = Some d \<and>
            map_of [(''100'', JArr [JInt 200])] ''100'' = Some (JArr xs) \<and>
            \<not> list_ex (eq_int d) xs)"
    by simp
  show ?thesis
    using C4_remove_absent_is_noop [OF g a] C4_remove_absent_is_noop [OF g b] by simp
qed

text \<open>
  C5. When the list under \<open>sourceId\<close> has one element and it equals \<open>d\<close>,
  \<^verbatim>\<open>removeRelayEntry sourceId d\<close> returns \<^verbatim>\<open>True\<close>, and \<^verbatim>\<open>getRelayChannels\<close> then reads the
  old table with the key \<open>sourceId\<close> deleted, in which \<open>sourceId\<close> is not a key.
\<close>

theorem C5_remove_sole_destination:
  assumes "getRelayChannels s = (Inr (JObj r), s1)"
    and "map_of r sourceId = Some (JArr [x])" and "eq_int d x"
  shows "fst (removeRelayEntry sourceId (Some d) s) = Inr True \<and>
         getRelayChannels (snd (removeRelayEntry sourceId (Some d) s)) =
           (Inr (JObj (AList.delete sourceId r)), snd (removeRelayEntry sourceId (Some d) s)) \<and>
         contains_str (JObj (AList.delete sourceId r)) sourceId = Inr False"
proof -
  from assms(1) obtain c where l: "loadConfig s = (JObj c, s1)"
    and g: "dict_get (JObj c) ''relayChannels'' (JObj []) = Inr (JObj r)"
    by (rule getRelayChannels_loadD)
  from assms(3) have "list_ex (eq_int d) [x]" by simp
  from removeRelayEntry_dest_load [OF l g assms(2) this] assms(3) show ?thesis
    by (simp add: getRelayChannels_dump update_conv' delete_conv')
qed

theorem C5_remove_sole_destination_witness:
  "removeRelayEntry ''100'' (Some 200)
     \<lparr>config_file = JsonDoc (JObj [(''relayChannels'',
        JObj [(''100'', JArr [JInt 200]), (''7'', JArr [JInt 1])])]), dumped = []\<rparr> =
     (Inr True,
      \<lparr>config_file = JsonDoc (JObj [(''relayChannels'', JObj [(''7'', JArr [JInt 1])])]),
       dumped = [JObj [(''relayChannels'', JObj [(''7'', JArr [JInt 1])])]]\<rparr>) \<and>
   fst (getRelayChannels
     \<lparr>config_file = JsonDoc (JObj [(''relayChannels'', JObj [(''7'', JArr [JInt 1])])]),
      dumped = [JObj [(''relayChannels'', JObj [(''7'', JArr [JInt 1])])]]\<rparr>) =
     Inr (JObj [(''7'', JArr [JInt 1])]) \<and>
   contains_str (JObj [(''7'', JArr [JInt 1])]) ''100'' = Inr False"
proof -
  let ?s = "\<lparr>config_file = JsonDoc (JObj [(''relayChannels'',
              JObj [(''100'', JArr [JInt 200]), (''7'', JArr [JInt 1])])]), dumped = []\<rparr>"
  let ?s' = "\<lparr>config_file = JsonDoc (JObj [(''relayChannels'', JObj [(''7'', JArr [JInt 1])])]),
              dumped = [JObj [(''relayChannels'', JObj [(''7'', JArr [JInt 1])])]]\<rparr>"
  have g: "getRelayChannels ?s =
      (Inr (JObj [(''100'', JArr [JInt 200]), (''7'', JArr [JInt 1])]), ?s)"
    by (simp add: getRelayChannels_def loadConfig_def)
  have m: "map_of [(''100'', JArr [JInt 200]), (''7'', JArr [JInt 1])] ''100'' =
      Some (JArr [JInt 200])"
    by simp
  have e: "eq_int 200 (JInt 200)" by simp
  have r: "removeRelayEntry ''100'' (Some 200) ?s = (Inr True, ?s')"
    by (simp add: removeRelayEntry_def loadConfig_def item_remove_def persist_def json_dump_def)
  from C5_remove_sole_destination [OF g m e] r show ?thesis by simp
qed

text \<open>
  C6. When \<open>sourceId\<close> is a key of the table, whatever it maps to,
  \<^verbatim>\<open>removeRelayEntry sourceId\<close> with no destination returns \<^verbatim>\<open>True\<close>, and
  \<^verbatim>\<open>getRelayChannels\<close> then reads the old table with the key deleted, in which \<open>sourceId\<close>
  is not a key. In particular after one or more adds under \<open>sourceId\<close>, from a state
  where \<open>sourceId\<close> is new or maps to a list: the adds make it a key, and the table read
  after the removal is the table before the adds without \<open>sourceId\<close>.
\<close>

theorem C6_remove_all:
  "(getRelayChannels s = (Inr (JObj r), s1) \<and> map_of r sourceId \<noteq> None \<longrightarrow>
      fst (removeRelayEntry sourceId None s) = Inr True \<and>
      getRelayChannels (snd (removeRelayEntry sourceId None s)) =
        (Inr (JObj (AList.delete sourceId r)), snd (removeRelayEntry sourceId None s)) \<and>
      contains_str (JObj (AList.delete sourceId r)) sourceId = Inr False) \<and>
   (getRelayChannels s0 = (Inr (JObj r0), s0') \<and>
    (map_of r0 sourceId = None \<or> map_of r0 sourceId = Some (JArr xs)) \<and> ds \<noteq> [] \<longrightarrow>
      fst (removeRelayEntry sourceId None (run_ops (map (AddMapping sourceId) ds) s0)) =
        Inr True \<and>
      getRelayChannels
        (snd (removeRelayEntry sourceId None (run_ops (map (AddMapping sourceId) ds) s0))) =
        (Inr (JObj (AList.delete sourceId r0)),
         snd (removeRelayEntry sourceId None (run_ops (map (AddMapping sourceId) ds) s0))) \<and>
      contains_str (JObj (AList.delete sourceId r0)) sourceId = Inr False)"
proof (intro conjI impI)
  assume a: "getRelayChannels s = (Inr (JObj r), s1) \<and> map_of r sourceId \<noteq> None"
  from removeRelayEntry_all_ok [of s r s1 sourceId] a
  show "fst (removeRelayEntry sourceId None s) = Inr True"
    and "getRelayChannels (snd (removeRelayEntry sourceId None s)) =
        (Inr (JObj (AList.delete sourceId r)), snd (removeRelayEntry sourceId None s))"
    by simp_all
next
  show "contains_str (JObj (AList.delete sourceId r)) sourceId = Inr False"
    by (simp add: delete_conv')
next
  assume b: "getRelayChannels s0 = (Inr (JObj r0), s0') \<and>
    (map_of r0 sourceId = None \<or> map_of r0 sourceId = Some (JArr xs)) \<and> ds \<noteq> []"
  define ys where "ys = (if map_of r0 sourceId = None then [] else xs)"
  let ?s = "run_ops (map (AddMapping sourceId) ds) s0"
  let ?r = "AList.update sourceId (JArr (ys @ map JInt ds)) r0"
  from b have "map_of r0 sourceId = None \<and> ys = [] \<or> map_of r0 sourceId = Some (JArr ys)"
    by (auto simp add: ys_def)
  with b have g: "getRelayChannels ?s = (Inr (JObj ?r), ?s)"
    by (intro adds_ok) simp_all
  have k: "map_of ?r sourceId \<noteq> None" by (simp add: update_conv')
  from removeRelayEntry_all_ok [OF g k]
  show "fst (removeRelayEntry sourceId None ?s) = Inr True"
    and "getRelayChannels (snd (removeRelayEntry sourceId None ?s)) =
        (Inr (JObj (AList.delete sourceId r0)), snd (removeRelayEntry sourceId None ?s))"
    by (simp_all add: delete_update_same)
next
  show "contains_str (JObj (AList.delete sourceId r0)) sourceId = Inr False"
    by (simp add: delete_conv')
qed

theorem C6_remove_all_witness:
  "fst (removeRelayEntry ''100'' None
     \<lparr>config_file = JsonDoc (JObj [(''relayChannels'',
        JObj [(''100'', JArr [JInt 200, JInt 300]), (''7'', JNull)])]), dumped = []\<rparr>) = Inr True \<and>
   fst (getRelayChannels (snd (removeRelayEntry ''100'' None
     \<lparr>config_file = JsonDoc (JObj [(''relayChannels'',
        JObj [(''100'', JArr [JInt 200, JInt 300]), (''7'', JNull)])]), dumped = []\<rparr>))) =
     Inr (JObj [(''7'', JNull)]) \<and>
   fst (removeRelayEntry ''100'' None
     (run_ops [AddMapping ''100'' 200, AddMapping ''100'' 300]
        \<lparr>config_file = JsonDoc defaultConfig, dumped = []\<rparr>)) = Inr True \<and>
   fst (getRelayChannels (snd (removeRelayEntry ''100'' None
     (run_ops [AddMapping ''100'' 200, AddMapping ''100'' 300]
        \<lparr>config_file = JsonDoc defaultConfig, dumped = []\<rparr>)))) = Inr (JObj [])"
proof -
  let ?A = "\<lparr>config_file = JsonDoc (JObj [(''relayChannels'',
              JObj [(''100'', JArr [JInt 200, JInt 300]), (''7'', JNull)])]), dumped = []\<rparr>"
  let ?B = "\<lparr>config_file = JsonDoc defaultConfig, dumped = []\<rparr>"
  have g: "getRelayChannels ?A =
      (Inr (JObj [(''100'', JArr [JInt 200, JInt 300]), (''7'', JNull)]), ?A)"
    by (simp add: getRelayChannels_def loadConfig_def)
  have g0: "getRelayChannels ?B = (Inr (JObj []), ?B)"
    by (simp add: getRelayChannels_def loadConfig_def defaultConfig_def)
  from C6_remove_all
    [of ?A "[(''100'', JArr [JInt 200, JInt 300]), (''7'', JNull)]" ?A "''100''"
        ?B "[]" ?B "[]" "[200, 300]"] g g0
  show ?thesis by simp
qed

section \<open>What the store operations leave alone\<close>

lemma loadConfig_frame:
  assumes "loadConfig s = (cfg, s1)"
  shows "stored_dests s k = config_dests cfg k" and "stored_dests s1 k = config_dests cfg k"
    and "f \<noteq> ''relayChannels'' \<Longrightarrow> stored_field s f = config_field cfg f"
    and "f \<noteq> ''relayChannels'' \<Longrightarrow> stored_field s1 f = config_field cfg f"
  using assms
  by (cases "config_file s";
      auto simp add: loadConfig_def json_dump_def stored_dests_def stored_field_def
        config_dests_def config_field_def defaultConfig_def split: if_splits)+

lemma stored_dump:
  "stored_field (json_dump v s) f = config_field v f"
  "stored_dests (json_dump v s) k = config_dests v k"
  by (simp_all add: stored_field_def stored_dests_def json_dump_def)

lemma framed_stored:
  assumes "loadConfig s = (cfg, s1)" and "framed k cfg s1 s'"
  shows "k' \<noteq> k \<Longrightarrow> stored_dests s' k' = stored_dests s k'"
    and "f \<noteq> ''relayChannels'' \<Longrightarrow> stored_field s' f = stored_field s f"
  using assms(2) loadConfig_frame [OF assms(1)]
  by (auto simp add: framed_def stored_dump)

text \<open>Storing a table that agrees with the old one away from \<open>k\<close> is within the frame.\<close>

lemma store_table_framed:
  assumes "dict_get (JObj c) ''relayChannels'' (JObj []) = Inr (JObj r)"
    and "\<And>k'. k' \<noteq> k \<Longrightarrow> map_of r' k' = map_of r k'"
  shows "framed k (JObj c) s1
           (json_dump (JObj (AList.update ''relayChannels'' (JObj r') c)) s1)"
proof -
  have "config_dests (JObj (AList.update ''relayChannels'' (JObj r') c)) k' =
        config_dests (JObj c) k'" if "k' \<noteq> k" for k'
    using assms(1) assms(2) [OF that]
    by (auto simp add: config_dests_def config_field_def update_conv' split: option.splits)
  moreover have "config_field (JObj (AList.update ''relayChannels'' (JObj r') c)) f =
        config_field (JObj c) f" if "f \<noteq> ''relayChannels''" for f
    using that by (simp add: config_field_def update_conv')
  ultimately show ?thesis
    unfolding framed_def by auto
qed

lemma setdefault_append_frame:
  "setdefault_append relay k d = Inr relay' \<Longrightarrow>
     \<exists>r v. relay = JObj r \<and> relay' = JObj (AList.update k v r)"
  by (cases relay) (auto split: option.splits json.splits)

lemma delitem_str_frame:
  "delitem_str relay k = Inr rc \<Longrightarrow> \<exists>r. relay = JObj r \<and> rc = JObj (AList.delete k r)"
  by (cases relay) (auto split: if_splits)

lemma item_remove_frame:
  "item_remove relay k d = Inr rc \<Longrightarrow> \<exists>r v. relay = JObj r \<and> rc = JObj (AList.update k v r)"
  by (cases relay) (auto simp add: item_remove_def split: option.splits sum.splits)

lemma updateRelayChannels_framed:
  assumes "loadConfig s = (cfg, s1)"
  shows "framed k cfg s1 (snd (updateRelayChannels k d s))"
proof (cases "dict_get cfg ''relayChannels'' (JObj [])")
  case (Inl e)
  with assms show ?thesis by (simp add: updateRelayChannels_def framed_def)
next
  case (Inr relay)
  then obtain c where c: "cfg = JObj c" by (auto dest: dict_get_Inr)
  note g = Inr [unfolded c]
  show ?thesis
  proof (cases "setdefault_append relay k d")
    case (Inl e)
    with assms g c show ?thesis
      by (simp add: updateRelayChannels_def framed_def del: dict_get.simps)
  next
    case (Inr relay')
    from setdefault_append_frame [OF Inr] obtain r v
      where r: "relay = JObj r" "relay' = JObj (AList.update k v r)"
      by blast
    with g have "framed k (JObj c) s1
        (json_dump (JObj (AList.update ''relayChannels'' relay' c)) s1)"
      by (auto intro!: store_table_framed simp add: update_conv' simp del: dict_get.simps)
    with assms g c Inr show ?thesis
      by (simp add: updateRelayChannels_def del: dict_get.simps)
  qed
qed

lemma removeRelayEntry_framed:
  assumes "loadConfig s = (cfg, s1)"
  shows "framed k cfg s1 (snd (removeRelayEntry k d s))"
proof (cases "dict_get cfg ''relayChannels'' (JObj [])")
  case (Inl e)
  with assms show ?thesis by (simp add: removeRelayEntry_def framed_def)
next
  case (Inr relay)
  then obtain c where c: "cfg = JObj c" by (auto dest: dict_get_Inr)
  note g = Inr [unfolded c]
  have none: "framed k (JObj c) s1 s1" by (simp add: framed_def)
  have del: "framed k (JObj c) s1 (snd (persist (JObj c) rc s1))"
    if "delitem_str relay k = Inr rc" for rc
  proof -
    from delitem_str_frame [OF that] obtain r
      where "relay = JObj r" "rc = JObj (AList.delete k r)"
      by blast
    with g show ?thesis
      by (auto intro!: store_table_framed simp add: persist_def delete_conv'
            simp del: dict_get.simps)
  qed
  have upd: "framed k (JObj c) s1 (snd (persist (JObj c) rc s1))"
      "\<And>rc'. delitem_str rc k = Inr rc' \<Longrightarrow>
         framed k (JObj c) s1 (snd (persist (JObj c) rc' s1))"
    if "item_remove relay k i = Inr rc" for rc i
  proof -
    from item_remove_frame [OF that] obtain r v
      where r: "relay = JObj r" "rc = JObj (AList.update k v r)"
      by blast
    with g show "framed k (JObj c) s1 (snd (persist (JObj c) rc s1))"
      by (auto intro!: store_table_framed simp add: persist_def update_conv'
            simp del: dict_get.simps)
    fix rc' assume "delitem_str rc k = Inr rc'"
    with r have "rc' = JObj (AList.delete k (AList.update k v r))"
      by (auto split: if_splits)
    with g r show "framed k (JObj c) s1 (snd (persist (JObj c) rc' s1))"
      by (auto intro!: store_table_framed simp add: persist_def delete_conv' update_conv'
            simp del: dict_get.simps)
  qed
  show ?thesis
    using assms g none del upd unfolding c removeRelayEntry_def
    by (simp del: dict_get.simps split: sum.splits bool.splits option.splits)
qed

text \<open>
  C10. For every state of the file, every source \<open>k'\<close> other than the one operated on and
  every top-level field \<open>f\<close> other than \<^verbatim>\<open>relayChannels\<close>: after \<^verbatim>\<open>updateRelayChannels\<close>
  and after \<^verbatim>\<open>removeRelayEntry\<close>, whether they succeed, return \<^verbatim>\<open>False\<close> or raise, the file
  shows under \<open>k'\<close> and under \<open>f\<close> what it showed before.
\<close>

theorem C10_frame:
  "(k' \<noteq> sourceId \<longrightarrow>
      stored_dests (snd (updateRelayChannels sourceId d s)) k' = stored_dests s k' \<and>
      stored_dests (snd (removeRelayEntry sourceId destId s)) k' = stored_dests s k') \<and>
   (f \<noteq> ''relayChannels'' \<longrightarrow>
      stored_field (snd (updateRelayChannels sourceId d s)) f = stored_field s f \<and>
      stored_field (snd (removeRelayEntry sourceId destId s)) f = stored_field s f)"
proof -
  obtain cfg s1 where l: "loadConfig s = (cfg, s1)" by (cases "loadConfig s")
  note a = framed_stored [OF l updateRelayChannels_framed [OF l, of sourceId d]]
  note b = framed_stored [OF l removeRelayEntry_framed [OF l, of sourceId destId]]
  from a b show ?thesis by blast
qed

theorem C10_frame_witness:
  "stored_dests (snd (updateRelayChannels ''100'' 300
     \<lparr>config_file = JsonDoc (JObj [(''owner'', JStr ''me''), (''relayChannels'',
        JObj [(''100'', JArr [JInt 200]), (''7'', JArr [JInt 1])])]), dumped = []\<rparr>)) ''7'' =
     Some (JArr [JInt 1]) \<and>
   stored_dests (snd (removeRelayEntry ''100'' (Some 200)
     \<lparr>config_file = JsonDoc (JObj [(''owner'', JStr ''me''), (''relayChannels'',
        JObj [(''100'', JArr [JInt 200]), (''7'', JArr [JInt 1])])]), dumped = []\<rparr>)) ''7'' =
     Some (JArr [JInt 1]) \<and>
   stored_field (snd (updateRelayChannels ''100'' 300
     \<lparr>config_file = JsonDoc (JObj [(''owner'', JStr ''me''), (''relayChannels'',
        JObj [(''100'', JArr [JInt 200]), (''7'', JArr [JInt 1])])]), dumped = []\<rparr>)) ''owner'' =
     Some (JStr ''me'') \<and>
   stored_field (snd (removeRelayEntry ''100'' (Some 200)
     \<lparr>config_file = JsonDoc (JObj [(''owner'', JStr ''me''), (''relayChannels'',
        JObj [(''100'', JArr [JInt 200]), (''7'', JArr [JInt 1])])]), dumped = []\<rparr>)) ''owner'' =
     Some (JStr ''me'')"
proof -
  let ?s = "\<lparr>config_file = JsonDoc (JObj [(''owner'', JStr ''me''), (''relayChannels'',
              JObj [(''100'', JArr [JInt 200]), (''7'', JArr [JInt 1])])]), dumped = []\<rparr>"
  have d: "stored_dests ?s ''7'' = Some (JArr [JInt 1])"
    by (simp add: stored_dests_def config_dests_def config_field_def)
  have f: "stored_field ?s ''owner'' = Some (JStr ''me'')"
    by (simp add: stored_field_def config_field_def)
  from C10_frame [where k' = "''7''" and sourceId = "''100''" and d = 300 and s = ?s
      and destId = "Some 200" and f = "''owner''"] d f
  show ?thesis by simp
qed

section \<open>The file stays well formed\<close>

lemma list_all_update:
  "P (k, v) \<Longrightarrow> list_all P r \<Longrightarrow> list_all P (AList.update k v r)"
  by (induction r) auto

lemma list_all_delete: "list_all P r \<Longrightarrow> list_all P (AList.delete k r)"
  by (induction r) auto

lemma remove_first_ints: "list_all is_JInt xs \<Longrightarrow> list_all is_JInt (remove_first d xs)"
  by (induction xs) auto

lemma dest_list_lookup:
  "list_all (\<lambda>kv. dest_list (snd kv)) r \<Longrightarrow> map_of r k = Some v \<Longrightarrow>
     \<exists>xs. v = JArr xs \<and> xs \<noteq> [] \<and> list_all is_JInt xs"
proof -
  assume a: "list_all (\<lambda>kv. dest_list (snd kv)) r" and m: "map_of r k = Some v"
  from m have "(k, v) \<in> set r" by (rule map_of_SomeD)
  with a have "dest_list v" by (auto simp add: list_all_iff)
  then show ?thesis by (cases v) simp_all
qed

lemma file_well_formedD:
  assumes "file_well_formed s"
  obtains c r where "loadConfig s = (JObj c, s)"
    and "map_of c ''relayChannels'' = Some (JObj r)"
    and "distinct (map fst r)" and "list_all (\<lambda>kv. dest_list (snd kv)) r"
proof -
  from assms obtain cfg where f: "config_file s = JsonDoc cfg" and w: "well_formed cfg"
    by (auto simp add: file_well_formed_def split: disk.splits)
  from w obtain c where c: "cfg = JObj c" by (cases cfg) simp_all
  from w c obtain r where "map_of c ''relayChannels'' = Some (JObj r)"
    and "distinct (map fst r)" and "list_all (\<lambda>kv. dest_list (snd kv)) r"
    by (auto split: option.splits json.splits)
  moreover from f c have "loadConfig s = (JObj c, s)" by (simp add: loadConfig_doc)
  ultimately show thesis using that by blast
qed

lemma file_well_formed_dump:
  "distinct (map fst r) \<Longrightarrow> list_all (\<lambda>kv. dest_list (snd kv)) r \<Longrightarrow>
   file_well_formed (json_dump (JObj (AList.update ''relayChannels'' (JObj r) c)) s)"
  by (simp add: file_well_formed_def json_dump_def update_conv')

lemma updateRelayChannels_well_formed:
  assumes "file_well_formed s"
  shows "file_well_formed (snd (updateRelayChannels k d s))"
proof -
  from assms obtain c r where l: "loadConfig s = (JObj c, s)"
    and m: "map_of c ''relayChannels'' = Some (JObj r)"
    and dr: "distinct (map fst r)" and la: "list_all (\<lambda>kv. dest_list (snd kv)) r"
    by (rule file_well_formedD)
  from m have g: "dict_get (JObj c) ''relayChannels'' (JObj []) = Inr (JObj r)" by simp
  define xs where "xs = (case map_of r k of Some (JArr ys) \<Rightarrow> ys | _ \<Rightarrow> [])"
  have k: "map_of r k = None \<and> xs = [] \<or> map_of r k = Some (JArr xs)"
  proof (cases "map_of r k")
    case None
    then show ?thesis by (simp add: xs_def)
  next
    case (Some v)
    with la obtain ys where "v = JArr ys" by (blast dest: dest_list_lookup)
    with Some show ?thesis by (simp add: xs_def)
  qed
  have ints: "list_all is_JInt xs"
  proof (cases "map_of r k")
    case None
    then show ?thesis by (simp add: xs_def)
  next
    case (Some v)
    with la obtain ys where "v = JArr ys" and "list_all is_JInt ys"
      by (blast dest: dest_list_lookup)
    with Some show ?thesis by (simp add: xs_def)
  qed
  have "list_all (\<lambda>kv. dest_list (snd kv)) (AList.update k (JArr (xs @ [JInt d])) r)"
    using la ints by (intro list_all_update) simp_all
  moreover have "distinct (map fst (AList.update k (JArr (xs @ [JInt d])) r))"
    using dr by (rule distinct_update)
  ultimately show ?thesis
    by (simp add: updateRelayChannels_load [OF l g k] file_well_formed_dump)
qed

lemma removeRelayEntry_well_formed:
  assumes "file_well_formed s"
  shows "file_well_formed (snd (removeRelayEntry k d s))"
proof -
  from assms obtain c r where l: "loadConfig s = (JObj c, s)"
    and m: "map_of c ''relayChannels'' = Some (JObj r)"
    and dr: "distinct (map fst r)" and la: "list_all (\<lambda>kv. dest_list (snd kv)) r"
    by (rule file_well_formedD)
  from m have g: "dict_get (JObj c) ''relayChannels'' (JObj []) = Inr (JObj r)" by simp
  have del: "file_well_formed (json_dump (JObj (AList.update ''relayChannels''
                (JObj (AList.delete k r)) c)) s)"
    using dr la by (intro file_well_formed_dump distinct_delete list_all_delete)
  show ?thesis
  proof (cases "map_of r k")
    case None
    then show ?thesis using assms by (simp add: removeRelayEntry_absent_load [OF l g])
  next
    case (Some v)
    with la obtain xs where v: "v = JArr xs" and ints: "list_all is_JInt xs"
      by (blast dest: dest_list_lookup)
    show ?thesis
    proof (cases d)
      case None
      with Some del show ?thesis by (simp add: removeRelayEntry_all_load [OF l g])
    next
      case (Some i)
      note d = this
      show ?thesis
      proof (cases "list_ex (eq_int i) xs")
        case False
        with \<open>map_of r k = Some v\<close> v d assms show ?thesis
          by (simp add: removeRelayEntry_missing_dest_load [OF l g])
      next
        case True
        have upd: "remove_first i xs \<noteq> [] \<Longrightarrow>
            file_well_formed (json_dump (JObj (AList.update ''relayChannels''
              (JObj (AList.update k (JArr (remove_first i xs)) r)) c)) s)"
          using dr la ints
          by (intro file_well_formed_dump distinct_update list_all_update)
            (simp_all add: remove_first_ints)
        from \<open>map_of r k = Some v\<close> v have "map_of r k = Some (JArr xs)" by simp
        from removeRelayEntry_dest_load [OF l g this True] del upd d show ?thesis
          by (cases "remove_first i xs = []") simp_all
      qed
    qed
  qed
qed

lemma apply_op_well_formed: "file_well_formed s \<Longrightarrow> file_well_formed (apply_op op s)"
  by (cases op) (simp_all add: updateRelayChannels_well_formed removeRelayEntry_well_formed)

lemma run_ops_well_formed: "file_well_formed s \<Longrightarrow> file_well_formed (run_ops ops s)"
  unfolding run_ops_def by (induction ops arbitrary: s) (simp_all add: apply_op_well_formed)

text \<open>
  C1. From a file holding the default configuration, after any sequence of adds and
  removes the file holds a JSON document that is a well-formed configuration: an object
  with the field \<^verbatim>\<open>relayChannels\<close>, itself an object with unique keys, under each of which
  is a list of integers that is not empty.
\<close>

theorem C1_file_always_well_formed:
  "file_well_formed (run_ops ops \<lparr>config_file = JsonDoc defaultConfig, dumped = ds\<rparr>)"
  by (rule run_ops_well_formed) (simp add: file_well_formed_def defaultConfig_def)

theorem C1_file_always_well_formed_witness:
  "file_well_formed
     (run_ops [AddMapping ''100'' 200, AddMapping ''100'' 300, RemoveMapping ''100'' (Some 200),
               AddMapping ''7'' 1, RemoveMapping ''100'' (Some 300), RemoveMapping ''9'' None]
        \<lparr>config_file = JsonDoc defaultConfig, dumped = []\<rparr>)"
  by (rule C1_file_always_well_formed)

section \<open>Routing a message\<close>




section \<open>The remove command answering \<^verbatim>\<open>all\<close>\<close>

lemma removeRelayEntry_absent_ok:
  assumes "getRelayChannels s = (Inr (JObj r), s1)" and "map_of r k = None"
  shows "removeRelayEntry k d s = (Inr False, s1)"
proof -
  from assms(1) obtain c where l: "loadConfig s = (JObj c, s1)"
    and g: "dict_get (JObj c) ''relayChannels'' (JObj []) = Inr (JObj r)"
    by (rule getRelayChannels_loadD)
  from l g assms(2) show ?thesis by (rule removeRelayEntry_absent_load)
qed

lemma remove_cmd_all:
  assumes "wait_for (check_channel ctx) arriving1 = Some sourceMsg"
    and "resolve_channel get_channel sourceMsg = Inr (Some sourceChannel)"
    and "wait_for (check_channel ctx) arriving2 = Some destMsg"
    and "lower (content destMsg) = ''all''"
  shows "remove_cmd get_channel ctx arriving1 arriving2 s =
           (case removeRelayEntry (str_int (channel_id sourceChannel)) None s of
              (Inl e, s') \<Rightarrow>
                ([Send (ctx_channel ctx) ask_source, Send (ctx_channel ctx) ask_dest,
                  Send (ctx_channel ctx) cancelled], s')
            | (Inr success, s') \<Rightarrow>
                ([Send (ctx_channel ctx) ask_source, Send (ctx_channel ctx) ask_dest,
                  Send (ctx_channel ctx)
                    (if success then removed_all sourceChannel
                     else ''No relays found for that source channel.'')], s'))"
  using assms by (simp add: remove_cmd_def Let_def split: prod.splits sum.splits)

text \<open>
  C8. Let the first reply that passes the check resolve to \<open>sourceChannel\<close> and let the
  second one, lowered, be \<^verbatim>\<open>all\<close>. The command then calls \<^verbatim>\<open>removeRelayEntry\<close> with the
  decimal id of \<open>sourceChannel\<close> and no destination, and after the two prompts it answers
  by what the call returns: the removal notice for \<^verbatim>\<open>True\<close>, the notice that no relay was
  found for \<^verbatim>\<open>False\<close>, and the cancellation notice if the call raises. When the id is a key
  of the table, the answer is the removal notice and the table read afterwards is the old
  one without that key; when it is not, the answer is that no relay was found.
\<close>

theorem C8_remove_all_reply:
  assumes "wait_for (check_channel ctx) arriving1 = Some sourceMsg"
    and "resolve_channel get_channel sourceMsg = Inr (Some sourceChannel)"
    and "wait_for (check_channel ctx) arriving2 = Some destMsg"
    and "lower (content destMsg) = ''all''"
  shows "remove_cmd get_channel ctx arriving1 arriving2 s =
           (case removeRelayEntry (str_int (channel_id sourceChannel)) None s of
              (Inl e, s') \<Rightarrow>
                ([Send (ctx_channel ctx) ask_source, Send (ctx_channel ctx) ask_dest,
                  Send (ctx_channel ctx) cancelled], s')
            | (Inr success, s') \<Rightarrow>
                ([Send (ctx_channel ctx) ask_source, Send (ctx_channel ctx) ask_dest,
                  Send (ctx_channel ctx)
                    (if success then removed_all sourceChannel
                     else ''No relays found for that source channel.'')], s')) \<and>
         (getRelayChannels s = (Inr (JObj r), s1) \<and>
          map_of r (str_int (channel_id sourceChannel)) \<noteq> None \<longrightarrow>
            fst (remove_cmd get_channel ctx arriving1 arriving2 s) =
              [Send (ctx_channel ctx) ask_source, Send (ctx_channel ctx) ask_dest,
               Send (ctx_channel ctx) (removed_all sourceChannel)] \<and>
            getRelayChannels (snd (remove_cmd get_channel ctx arriving1 arriving2 s)) =
              (Inr (JObj (AList.delete (str_int (channel_id sourceChannel)) r)),
               snd (remove_cmd get_channel ctx arriving1 arriving2 s))) \<and>
         (getRelayChannels s = (Inr (JObj r), s1) \<and>
          map_of r (str_int (channel_id sourceChannel)) = None \<longrightarrow>
            remove_cmd get_channel ctx arriving1 arriving2 s =
              ([Send (ctx_channel ctx) ask_source, Send (ctx_channel ctx) ask_dest,
                Send (ctx_channel ctx) ''No relays found for that source channel.''], s1))"
proof (intro conjI impI)
  note flow = remove_cmd_all [OF assms, of s]
  show "remove_cmd get_channel ctx arriving1 arriving2 s =
           (case removeRelayEntry (str_int (channel_id sourceChannel)) None s of
              (Inl e, s') \<Rightarrow>
                ([Send (ctx_channel ctx) ask_source, Send (ctx_channel ctx) ask_dest,
                  Send (ctx_channel ctx) cancelled], s')
            | (Inr success, s') \<Rightarrow>
                ([Send (ctx_channel ctx) ask_source, Send (ctx_channel ctx) ask_dest,
                  Send (ctx_channel ctx)
                    (if success then removed_all sourceChannel
                     else ''No relays found for that source channel.'')], s'))"
    by (rule flow)
  {
    assume a: "getRelayChannels s = (Inr (JObj r), s1) \<and>
      map_of r (str_int (channel_id sourceChannel)) \<noteq> None"
    let ?k = "str_int (channel_id sourceChannel)"
    from a have ok: "fst (removeRelayEntry ?k None s) = Inr True"
      and after: "getRelayChannels (snd (removeRelayEntry ?k None s)) =
        (Inr (JObj (AList.delete ?k r)), snd (removeRelayEntry ?k None s))"
      using removeRelayEntry_all_ok [of s r s1 ?k] by simp_all
    from ok have res: "removeRelayEntry ?k None s = (Inr True, snd (removeRelayEntry ?k None s))"
      by (cases "removeRelayEntry ?k None s") simp
    show "fst (remove_cmd get_channel ctx arriving1 arriving2 s) =
        [Send (ctx_channel ctx) ask_source, Send (ctx_channel ctx) ask_dest,
         Send (ctx_channel ctx) (removed_all sourceChannel)]"
      by (subst flow, subst res) simp
    have "snd (remove_cmd get_channel ctx arriving1 arriving2 s) =
        snd (removeRelayEntry ?k None s)"
      by (subst flow, subst res) simp
    with after show "getRelayChannels (snd (remove_cmd get_channel ctx arriving1 arriving2 s)) =
        (Inr (JObj (AList.delete ?k r)), snd (remove_cmd get_channel ctx arriving1 arriving2 s))"
      by simp
  }
  {
    assume b: "getRelayChannels s = (Inr (JObj r), s1) \<and>
      map_of r (str_int (channel_id sourceChannel)) = None"
    then have b1: "getRelayChannels s = (Inr (JObj r), s1)"
      and b2: "map_of r (str_int (channel_id sourceChannel)) = None"
      by blast+
    from removeRelayEntry_absent_ok [OF b1 b2, of None] flow show "remove_cmd get_channel ctx arriving1 arriving2 s =
        ([Send (ctx_channel ctx) ask_source, Send (ctx_channel ctx) ask_dest,
          Send (ctx_channel ctx) ''No relays found for that source channel.''], s1)"
      by simp
  }
qed


theorem C8_remove_all_reply_witness:
  "remove_cmd (\<lambda>i. if i = 100 then Some \<lparr>channel_id = 100, mention = ''<#100>''\<rparr> else None)
     \<lparr>ctx_author = \<lparr>user_id = 1, is_bot = False\<rparr>,
      ctx_channel = \<lparr>channel_id = 5, mention = ''<#5>''\<rparr>\<rparr>
     [\<lparr>author = \<lparr>user_id = 2, is_bot = False\<rparr>,
       channel = \<lparr>channel_id = 5, mention = ''<#5>''\<rparr>,
       content = ''7'', channel_mentions = []\<rparr>,
      \<lparr>author = \<lparr>user_id = 1, is_bot = False\<rparr>,
       channel = \<lparr>channel_id = 5, mention = ''<#5>''\<rparr>,
       content = '' 100 '', channel_mentions = []\<rparr>]
     [\<lparr>author = \<lparr>user_id = 1, is_bot = False\<rparr>,
       channel = \<lparr>channel_id = 5, mention = ''<#5>''\<rparr>,
       content = ''All'', channel_mentions = []\<rparr>]
     \<lparr>config_file = JsonDoc (JObj [(''relayChannels'',
        JObj [(''100'', JArr [JInt 200, JInt 300])])]), dumped = []\<rparr> =
     ([Send \<lparr>channel_id = 5, mention = ''<#5>''\<rparr> ask_source,
       Send \<lparr>channel_id = 5, mention = ''<#5>''\<rparr> ask_dest,
       Send \<lparr>channel_id = 5, mention = ''<#5>''\<rparr>
         ''Removed all relays from source channel <#100>.''],
      \<lparr>config_file = JsonDoc (JObj [(''relayChannels'', JObj [])]),
       dumped = [JObj [(''relayChannels'', JObj [])]]\<rparr>) \<and>
   remove_cmd (\<lambda>i. if i = 100 then Some \<lparr>channel_id = 100, mention = ''<#100>''\<rparr> else None)
     \<lparr>ctx_author = \<lparr>user_id = 1, is_bot = False\<rparr>,
      ctx_channel = \<lparr>channel_id = 5, mention = ''<#5>''\<rparr>\<rparr>
     [\<lparr>author = \<lparr>user_id = 2, is_bot = False\<rparr>,
       channel = \<lparr>channel_id = 5, mention = ''<#5>''\<rparr>,
       content = ''7'', channel_mentions = []\<rparr>,
      \<lparr>author = \<lparr>user_id = 1, is_bot = False\<rparr>,
       channel = \<lparr>channel_id = 5, mention = ''<#5>''\<rparr>,
       content = '' 100 '', channel_mentions = []\<rparr>]
     [\<lparr>author = \<lparr>user_id = 1, is_bot = False\<rparr>,
       channel = \<lparr>channel_id = 5, mention = ''<#5>''\<rparr>,
       content = ''All'', channel_mentions = []\<rparr>]
     \<lparr>config_file = JsonDoc (JObj [(''relayChannels'', JObj [])]), dumped = []\<rparr> =
     ([Send \<lparr>channel_id = 5, mention = ''<#5>''\<rparr> ask_source,
       Send \<lparr>channel_id = 5, mention = ''<#5>''\<rparr> ask_dest,
       Send \<lparr>channel_id = 5, mention = ''<#5>''\<rparr> ''No relays found for that source channel.''],
      \<lparr>config_file = JsonDoc (JObj [(''relayChannels'', JObj [])]), dumped = []\<rparr>)"
proof -
  let ?G = "\<lambda>i :: int. if i = 100 then Some \<lparr>channel_id = 100, mention = ''<#100>''\<rparr> else None"
  let ?C = "\<lparr>ctx_author = \<lparr>user_id = 1, is_bot = False\<rparr>,
      ctx_channel = \<lparr>channel_id = 5, mention = ''<#5>''\<rparr>\<rparr>"
  let ?M1 = "\<lparr>author = \<lparr>user_id = 2, is_bot = False\<rparr>,
       channel = \<lparr>channel_id = 5, mention = ''<#5>''\<rparr>,
       content = ''7'', channel_mentions = []\<rparr>"
  let ?M2 = "\<lparr>author = \<lparr>user_id = 1, is_bot = False\<rparr>,
       channel = \<lparr>channel_id = 5, mention = ''<#5>''\<rparr>,
       content = '' 100 '', channel_mentions = []\<rparr>"
  let ?M3 = "\<lparr>author = \<lparr>user_id = 1, is_bot = False\<rparr>,
       channel = \<lparr>channel_id = 5, mention = ''<#5>''\<rparr>,
       content = ''All'', channel_mentions = []\<rparr>"
  let ?A = "\<lparr>config_file = JsonDoc (JObj [(''relayChannels'',
        JObj [(''100'', JArr [JInt 200, JInt 300])])]), dumped = []\<rparr>"
  let ?B = "\<lparr>config_file = JsonDoc (JObj [(''relayChannels'', JObj [])]), dumped = []\<rparr>"
  have w1: "wait_for (check_channel ?C) [?M1, ?M2] = Some ?M2"
    by (simp add: wait_for_def check_channel_def)
  have w2: "wait_for (check_channel ?C) [?M3] = Some ?M3"
    by (simp add: wait_for_def check_channel_def)
  have i: "int_str (strip '' 100 '') = Inr 100" by code_simp
  have rs: "resolve_channel ?G ?M2 = Inr (Some \<lparr>channel_id = 100, mention = ''<#100>''\<rparr>)"
    by (simp add: resolve_channel_def i)
  have "lower ''All'' = ''all''" by code_simp
  then have lw: "lower (content ?M3) = ''all''" by simp
  have k: "str_int 100 = ''100''" by code_simp
  have ra: "removeRelayEntry ''100'' None ?A =
      (Inr True, \<lparr>config_file = JsonDoc (JObj [(''relayChannels'', JObj [])]),
                  dumped = [JObj [(''relayChannels'', JObj [])]]\<rparr>)"
    by (simp add: removeRelayEntry_def loadConfig_def persist_def json_dump_def)
  have gb: "getRelayChannels ?B = (Inr (JObj []), ?B)"
    by (simp add: getRelayChannels_def loadConfig_def)
  note present = C8_remove_all_reply [OF w1 rs w2 lw, of ?A, THEN conjunct1]
  note absent = C8_remove_all_reply [OF w1 rs w2 lw, of ?B "[]" ?B, THEN conjunct2, THEN conjunct2]
  from present ra have a: "remove_cmd ?G ?C [?M1, ?M2] [?M3] ?A =
      ([Send \<lparr>channel_id = 5, mention = ''<#5>''\<rparr> ask_source,
        Send \<lparr>channel_id = 5, mention = ''<#5>''\<rparr> ask_dest,
        Send \<lparr>channel_id = 5, mention = ''<#5>''\<rparr>
          ''Removed all relays from source channel <#100>.''],
       \<lparr>config_file = JsonDoc (JObj [(''relayChannels'', JObj [])]),
        dumped = [JObj [(''relayChannels'', JObj [])]]\<rparr>)"
    by (simp add: k removed_all_def)
  from absent gb have b: "remove_cmd ?G ?C [?M1, ?M2] [?M3] ?B =
      ([Send \<lparr>channel_id = 5, mention = ''<#5>''\<rparr> ask_source,
        Send \<lparr>channel_id = 5, mention = ''<#5>''\<rparr> ask_dest,
        Send \<lparr>channel_id = 5, mention = ''<#5>''\<rparr> ''No relays found for that source channel.''],
       ?B)"
    by (simp add: k)
  from a b show ?thesis by (rule conjI)
qed

end
